theory Spec2Isabelle
  imports Complex_Main
begin

section \<open>Numbers\<close>

text \<open>
  The program is TypeScript; every quantity is a JavaScript number.  The embedding reads
  a number as an exact real: the not-a-number value and rounding error of binary floating
  point are outside the model.  The value \<open>Infinity\<close>, which the statistics return on
  purpose, is a constructor of its own.

  On a number, \<open>x || d\<close> is \<open>d\<close> when \<open>x\<close> is zero (falsy) and \<open>x\<close> otherwise, and
  \<open>!x\<close> holds exactly when \<open>x\<close> is zero.
\<close>

type_synonym number = real

datatype jsnum = Fin number | Infinity

definition or_default :: "number \<Rightarrow> number \<Rightarrow> number" where
  "or_default x d = (if x = 0 then d else x)"

definition Math_floor :: "number \<Rightarrow> number" where
  "Math_floor x = of_int \<lfloor>x\<rfloor>"

text \<open>\<open>Math.round\<close> rounds to the nearest integer, a half towards plus infinity.\<close>

definition Math_round :: "number \<Rightarrow> int" where
  "Math_round x = \<lfloor>x + 1 / 2\<rfloor>"

text \<open>\<open>clamp(n, min, max)\<close> of Page.tsx.\<close>

definition clamp :: "int \<Rightarrow> int \<Rightarrow> int \<Rightarrow> int" where
  "clamp n mn mx = max mn (min mx n)"

section \<open>Checklist model and scorer\<close>

text \<open>
  An item carries a key, a display label and a weight.  The label is text that no function
  reads; the embedding keeps the key and the weight.  Both files define the same two
  tables (\<open>TREND\<close>/\<open>REBOUND\<close> in the cost-aware console, \<open>TREND_ITEMS\<close>/\<open>REBOUND_ITEMS\<close>
  in Page.tsx).
\<close>

datatype ModelType = Trend | Rebound

record item =
  key :: string
  weight :: nat

definition TREND :: "item list" where
  "TREND =
    [\<lparr>key = ''maBull'', weight = 20\<rparr>,
     \<lparr>key = ''aboveMA20'', weight = 15\<rparr>,
     \<lparr>key = ''weeklyUp'', weight = 15\<rparr>,
     \<lparr>key = ''breakout'', weight = 15\<rparr>,
     \<lparr>key = ''breakoutVol'', weight = 15\<rparr>,
     \<lparr>key = ''pullbackVol'', weight = 10\<rparr>,
     \<lparr>key = ''momentumOk'', weight = 10\<rparr>]"

definition REBOUND :: "item list" where
  "REBOUND =
    [\<lparr>key = ''drawdown30'', weight = 20\<rparr>,
     \<lparr>key = ''support'', weight = 20\<rparr>,
     \<lparr>key = ''valueOk'', weight = 10\<rparr>,
     \<lparr>key = ''stopK'', weight = 20\<rparr>,
     \<lparr>key = ''firstVolUp'', weight = 15\<rparr>,
     \<lparr>key = ''macdTurn'', weight = 15\<rparr>]"

text \<open>\<open>model === "trend" ? TREND : REBOUND\<close>, the first line of every scoring function.\<close>

definition itemSet :: "ModelType \<Rightarrow> item list" where
  "itemSet m = (if m = Trend then TREND else REBOUND)"

text \<open>
  A checklist is a \<open>Record<string, boolean>\<close>: a key may be absent, and an absent key
  reads as \<open>undefined\<close>, which is falsy.
\<close>

type_synonym checklist = "string \<rightharpoonup> bool"

definition checked :: "checklist \<Rightarrow> string \<Rightarrow> bool" where
  "checked c x = (case c x of Some b \<Rightarrow> b | None \<Rightarrow> False)"

text \<open>\<open>score\<close> of the cost-aware console (and of pages/index.tsx).\<close>

definition score :: "ModelType \<Rightarrow> checklist \<Rightarrow> int" where
  "score m c =
    (let items = itemSet m;
         total = foldl (\<lambda>s x. s + weight x) 0 items;
         got = foldl (\<lambda>s x. s + (if checked c (key x) then weight x else 0)) 0 items
     in Math_round ((real got / real total) * 100))"

text \<open>\<open>scoreChecklist\<close> of Page.tsx: the same sums, a guard on a zero total, and a clamp.\<close>

definition scoreChecklist :: "ModelType \<Rightarrow> checklist \<Rightarrow> int" where
  "scoreChecklist m c =
    (let items = itemSet m;
         total = foldl (\<lambda>s x. s + weight x) 0 items;
         got = foldl (\<lambda>s x. s + (if checked c (key x) then weight x else 0)) 0 items;
         pct = (if total = 0 then 0 else Math_round ((real got / real total) * 100))
     in clamp pct 0 100)"

text \<open>\<open>makeChecklist\<close>: every key of the model set to false.\<close>

definition makeChecklist :: "ModelType \<Rightarrow> checklist" where
  "makeChecklist m = foldl (\<lambda>o' it. o'(key it \<mapsto> False)) Map.empty (itemSet m)"

section \<open>Position sizing\<close>

datatype Side = Long | Short

record sizing =
  riskPer :: number
  riskMoney :: number
  size_units :: number
  posPct :: number

text \<open>The two local constants of \<open>calcSizing\<close> that the sizing rule is built from.\<close>

definition priceRisk :: "Side \<Rightarrow> number \<Rightarrow> number \<Rightarrow> number" where
  "priceRisk side e s = (if side = Long then e - s else s - e)"

definition costRisk :: "number \<Rightarrow> number \<Rightarrow> number \<Rightarrow> number \<Rightarrow> number \<Rightarrow> number" where
  "costRisk e s fee exitFee slip =
     e * (fee / 100) + s * (fee / 100) + s * (exitFee / 100) + 2 * slip"

text \<open>\<open>calcSizing\<close> of the cost-aware console; the field \<open>size\<close> is \<open>size_units\<close> here.\<close>

definition calcSizing ::
  "number \<Rightarrow> number \<Rightarrow> number \<Rightarrow> number \<Rightarrow> number \<Rightarrow> Side \<Rightarrow> number \<Rightarrow> number \<Rightarrow> number \<Rightarrow> sizing" where
  "calcSizing equity maxRiskPct entry stop lotSize side feePct exitFeePct slippage =
    (let e = or_default entry 0;
         s = or_default stop 0;
         lot = max 1 (or_default lotSize 1);
         fee = or_default feePct 0;
         exitFee = or_default exitFeePct 0;
         slip = or_default slippage 0;
         rp = max 0 (priceRisk side e s + costRisk e s fee exitFee slip);
         rm = equity * (maxRiskPct / 100);
         rawSize = (if rp > 0 then Math_floor (rm / rp) else 0);
         sz = Math_floor (rawSize / lot) * lot;
         pp = (if equity > 0 then (sz * e) / equity * 100 else 0)
     in \<lparr>riskPer = rp, riskMoney = rm, size_units = sz, posPct = pp\<rparr>)"




section \<open>Outcome calculator\<close>

subsection \<open>Cost-aware console\<close>

definition calcCosts :: "number \<Rightarrow> number \<Rightarrow> number \<Rightarrow> number \<Rightarrow> number \<Rightarrow> number \<Rightarrow> number" where
  "calcCosts entry exit' sz feePct exitFeePct slippage =
    (let notionalEntry = entry * sz;
         notionalExit = exit' * sz;
         fee = (notionalEntry + notionalExit) * (feePct / 100);
         exitFee = notionalExit * (exitFeePct / 100);
         slip = \<bar>slippage\<bar> * sz * 2
     in fee + exitFee + slip)"

definition calcPnL ::
  "number \<Rightarrow> number \<Rightarrow> number \<Rightarrow> Side \<Rightarrow> number \<Rightarrow> number \<Rightarrow> number \<Rightarrow> number" where
  "calcPnL entry exit' sz side feePct exitFeePct slippage =
    (if entry = 0 \<or> exit' = 0 \<or> sz = 0 then 0
     else let gross = (if side = Long then (exit' - entry) * sz else (entry - exit') * sz);
              costs = calcCosts entry exit' sz feePct exitFeePct slippage
          in gross - costs)"

definition calcR ::
  "number \<Rightarrow> number \<Rightarrow> number \<Rightarrow> Side \<Rightarrow> number \<Rightarrow> number \<Rightarrow> number \<Rightarrow> number" where
  "calcR entry stop exit' side feePct exitFeePct slippage =
    (let rp = (if side = Long then entry - stop else stop - entry)
     in if rp = 0 \<or> rp \<le> 0 then 0
        else let pnl = calcPnL entry exit' 1 side feePct exitFeePct slippage
             in pnl / rp)"

subsection \<open>Page.tsx: the trade record and the long-only calculator\<close>

datatype Status = Open | Closed

datatype Timeframe = Mid | Swing

text \<open>
  The trade object of Page.tsx.  A draft is the same object before it has an identity:
  \<open>makeBlankTrade\<close> gives it no \<open>id\<close>, \<open>createdAt\<close> or \<open>updatedAt\<close>; an absent
  number is read through \<open>x || d\<close> only, so it is the falsy number \<open>0\<close> here, and the
  absent \<open>id\<close> is the empty string.  The two flags are the draft's \<open>_manualShares\<close> and
  \<open>_manualPct\<close>, which the object spread carries into the stored trade.
\<close>

record trade_p =
  p_id :: string
  p_createdAt :: number
  p_updatedAt :: number
  p_symbol :: string
  p_name :: string
  p_industry :: string
  p_model :: ModelType
  p_timeframe :: Timeframe
  p_priceNow :: number
  p_entry :: number
  p_stop :: number
  p_target :: number
  p_positionPct :: number
  p_sizeShares :: number
  p_score :: number
  p_checklist :: checklist
  p_status :: Status
  p_exit :: number
  p_pnl :: number
  p_rMultiple :: number
  p_tags :: "string list"
  p_notes :: string
  p_manualShares :: bool
  p_manualPct :: bool

text \<open>\<open>calcRMultiple(trade)\<close> and \<open>calcPnL(trade)\<close> of Page.tsx.\<close>

definition calcRMultiple :: "trade_p \<Rightarrow> number" where
  "calcRMultiple t =
    (let entry = p_entry t; stop = p_stop t; exit' = p_exit t; sz = p_sizeShares t
     in if entry = 0 \<or> stop = 0 \<or> exit' = 0 \<or> sz = 0 then 0
        else let rps = \<bar>entry - stop\<bar>
             in if rps = 0 then 0
                else let pnlPerShare = exit' - entry in pnlPerShare / rps)"

definition calcPnL_p :: "trade_p \<Rightarrow> number" where
  "calcPnL_p t =
    (let entry = p_entry t; exit' = p_exit t; sz = p_sizeShares t
     in if entry = 0 \<or> exit' = 0 \<or> sz = 0 then 0 else (exit' - entry) * sz)"

section \<open>Strings\<close>

text \<open>
  \<open>String.prototype.trim\<close> removes white space at both ends.  A string is a list of
  bytes here, so the white space is the ASCII part of what JavaScript strips.
\<close>

definition isSpace :: "char \<Rightarrow> bool" where
  "isSpace ch = (ch \<in> set [CHR '' '', CHR 0x09, CHR 0x0A, CHR 0x0B, CHR 0x0C, CHR 0x0D])"

definition trim :: "string \<Rightarrow> string" where
  "trim s = rev (dropWhile isSpace (rev (dropWhile isSpace s)))"

section \<open>Creating a trade\<close>

text \<open>
  \<open>addTrade\<close> reads the component's state, may call \<open>alert\<close> and return, and otherwise
  replaces the state.  The model takes the state and returns the alert, if any, with the
  state after the call.  The alert texts are Chinese sentences; each is a constructor
  named after what it says.  \<open>uid()\<close> and \<open>Date.now()\<close> are arguments.
\<close>

datatype alert =
    SymbolRequired
  | StopRequired
  | EntryRequired
  | ShortStopNotAboveEntry
  | LongStopNotBelowEntry

datatype Tab = TabDashboard | TabNew | TabLog | TabTrades | TabSettings

subsection \<open>Cost-aware console\<close>

record settings =
  s_equity :: number
  s_maxRiskPct :: number
  s_lotSize :: number
  s_feePct :: number
  s_exitFeePct :: number
  s_slippage :: number

record draft =
  d_symbol :: string
  d_name :: string
  d_industry :: string
  d_model :: ModelType
  d_timeframe :: Timeframe
  d_side :: Side
  d_entry :: number
  d_stop :: number
  d_target :: number
  d_feePct :: number
  d_exitFeePct :: number
  d_slippage :: number
  d_checklist :: checklist
  d_tags :: "string list"
  d_notes :: string

text \<open>The \<open>Trade\<close> type; a field declared with \<open>?\<close> is an option.\<close>

record trade =
  t_side :: Side
  t_feePct :: number
  t_exitFeePct :: number
  t_slippage :: number
  t_id :: string
  t_createdAt :: number
  t_updatedAt :: number
  t_symbol :: string
  t_name :: "string option"
  t_industry :: "string option"
  t_model :: ModelType
  t_timeframe :: Timeframe
  t_entry :: number
  t_stop :: number
  t_target :: "number option"
  t_equity :: number
  t_maxRiskPct :: number
  t_lotSize :: number
  t_size :: number
  t_positionPct :: number
  t_score :: int
  t_checklist :: checklist
  t_tags :: "string list"
  t_status :: Status
  t_exit :: "number option"
  t_pnl :: "number option"
  t_r :: "number option"
  t_notes :: "string option"

record app =
  a_settings :: settings
  a_trades :: "trade list"
  a_draft :: draft
  a_tab :: Tab

definition resetDraft :: "settings \<Rightarrow> draft" where
  "resetDraft st =
    \<lparr>d_symbol = [], d_name = [], d_industry = [], d_model = Trend, d_timeframe = Mid,
     d_side = Long, d_entry = 0, d_stop = 0, d_target = 0,
     d_feePct = s_feePct st, d_exitFeePct = s_exitFeePct st, d_slippage = s_slippage st,
     d_checklist = makeChecklist Trend, d_tags = [], d_notes = []\<rparr>"

text \<open>
  \<open>addTrade\<close>.  The memoised \<open>s\<close> and \<open>sizing\<close> it stores are \<open>score\<close> and
  \<open>calcSizing\<close> of the current settings and draft.
\<close>

definition addTrade :: "app \<Rightarrow> string \<Rightarrow> number \<Rightarrow> alert option \<times> app" where
  "addTrade a newId now =
    (let d = a_draft a; st = a_settings a
     in if trim (d_symbol d) = [] then (Some SymbolRequired, a)
        else if d_stop d = 0 \<or> d_stop d \<le> 0 then (Some StopRequired, a)
        else if d_entry d = 0 \<or> d_entry d \<le> 0 then (Some EntryRequired, a)
        else if d_side d = Short \<and> d_stop d \<le> d_entry d then (Some ShortStopNotAboveEntry, a)
        else if d_side d = Long \<and> d_stop d \<ge> d_entry d then (Some LongStopNotBelowEntry, a)
        else
          let sizing = calcSizing (s_equity st) (s_maxRiskPct st) (d_entry d) (d_stop d)
                         (s_lotSize st) (d_side d) (d_feePct d) (d_exitFeePct d) (d_slippage d);
              t = \<lparr>t_side = d_side d,
                   t_feePct = d_feePct d,
                   t_exitFeePct = d_exitFeePct d,
                   t_slippage = d_slippage d,
                   t_id = newId,
                   t_createdAt = now,
                   t_updatedAt = now,
                   t_symbol = trim (d_symbol d),
                   t_name = Some (trim (d_name d)),
                   t_industry = Some (trim (d_industry d)),
                   t_model = d_model d,
                   t_timeframe = d_timeframe d,
                   t_entry = d_entry d,
                   t_stop = d_stop d,
                   t_target = (if d_target d \<noteq> 0 then Some (d_target d) else None),
                   t_equity = s_equity st,
                   t_maxRiskPct = s_maxRiskPct st,
                   t_lotSize = s_lotSize st,
                   t_size = size_units sizing,
                   t_positionPct = posPct sizing,
                   t_score = score (d_model d) (d_checklist d),
                   t_checklist = d_checklist d,
                   t_tags = d_tags d,
                   t_status = Open,
                   t_exit = None,
                   t_pnl = None,
                   t_r = None,
                   t_notes = Some (d_notes d)\<rparr>
          in (None, a\<lparr>a_trades := t # a_trades a, a_draft := resetDraft st, a_tab := TabLog\<rparr>))"

subsection \<open>Page.tsx\<close>

record settings_p =
  ps_equity :: number
  ps_maxRiskPct :: number
  ps_lotSize :: number
  ps_defaultTimeframe :: Timeframe
  ps_defaultModel :: ModelType
  ps_currency :: string

record app_p =
  ap_settings :: settings_p
  ap_trades :: "trade_p list"
  ap_draft :: trade_p
  ap_activeTab :: Tab

definition makeBlankTrade :: "settings_p \<Rightarrow> trade_p" where
  "makeBlankTrade st =
    \<lparr>p_id = [], p_createdAt = 0, p_updatedAt = 0,
     p_symbol = [], p_name = [], p_industry = [],
     p_model = ps_defaultModel st, p_timeframe = ps_defaultTimeframe st,
     p_priceNow = 0, p_entry = 0, p_stop = 0, p_target = 0,
     p_positionPct = 0, p_sizeShares = 0, p_score = 0,
     p_checklist = makeChecklist (ps_defaultModel st),
     p_status = Open, p_exit = 0, p_pnl = 0, p_rMultiple = 0,
     p_tags = [], p_notes = [],
     p_manualShares = False, p_manualPct = False\<rparr>"

text \<open>
  \<open>normalizeTrade\<close> on an object whose fields already have their declared types: the
  strings are trimmed, a zero score is recomputed, absent time stamps become \<open>Date.now()\<close>.
\<close>

definition normalizeTrade :: "number \<Rightarrow> trade_p \<Rightarrow> trade_p" where
  "normalizeTrade now t =
    t\<lparr>p_symbol := trim (p_symbol t),
      p_name := trim (p_name t),
      p_industry := trim (p_industry t),
      p_priceNow := or_default (p_priceNow t) 0,
      p_entry := or_default (p_entry t) 0,
      p_stop := or_default (p_stop t) 0,
      p_target := or_default (p_target t) 0,
      p_positionPct := or_default (p_positionPct t) 0,
      p_sizeShares := or_default (p_sizeShares t) 0,
      p_score := or_default (p_score t) (of_int (scoreChecklist (p_model t) (p_checklist t))),
      p_exit := or_default (p_exit t) 0,
      p_pnl := or_default (p_pnl t) 0,
      p_rMultiple := or_default (p_rMultiple t) 0,
      p_createdAt := or_default (p_createdAt t) now,
      p_updatedAt := or_default (p_updatedAt t) now\<rparr>"

text \<open>\<open>addTrade\<close> of Page.tsx: a symbol and a positive stop are all it asks for.\<close>

definition addTrade_p :: "app_p \<Rightarrow> string \<Rightarrow> number \<Rightarrow> alert option \<times> app_p" where
  "addTrade_p a newId now =
    (let d = ap_draft a
     in if trim (p_symbol d) = [] then (Some SymbolRequired, a)
        else if p_stop d = 0 \<or> p_stop d \<le> 0 then (Some StopRequired, a)
        else
          let t = normalizeTrade now d;
              tr = t\<lparr>p_id := newId, p_createdAt := now, p_updatedAt := now,
                     p_status := Open, p_exit := 0, p_pnl := 0, p_rMultiple := 0\<rparr>
          in (None, a\<lparr>ap_trades := tr # ap_trades a,
                       ap_draft := makeBlankTrade (ap_settings a),
                       ap_activeTab := TabTrades\<rparr>))"

section \<open>Closing a trade\<close>

text \<open>
  What \<open>closeTrade\<close> does to the trade whose id matches, once the exit price has passed
  its check: in Page.tsx and in the cost-aware console.
\<close>

definition closeOne_p :: "trade_p \<Rightarrow> number \<Rightarrow> number \<Rightarrow> trade_p" where
  "closeOne_p t ep now =
    (let updated = t\<lparr>p_status := Closed, p_exit := ep\<rparr>;
         pnl = calcPnL_p updated;
         r = calcRMultiple updated
     in updated\<lparr>p_pnl := pnl, p_rMultiple := r, p_updatedAt := now\<rparr>)"

definition closeOne :: "trade \<Rightarrow> number \<Rightarrow> number \<Rightarrow> trade" where
  "closeOne t exit' now =
    (let pnl = calcPnL (t_entry t) exit' (t_size t) (t_side t)
                 (t_feePct t) (t_exitFeePct t) (t_slippage t);
         r = calcR (t_entry t) (t_stop t) exit' (t_side t)
               (t_feePct t) (t_exitFeePct t) (t_slippage t)
     in t\<lparr>t_status := Closed, t_exit := Some exit', t_pnl := Some pnl, t_r := Some r,
          t_updatedAt := now\<rparr>)"

text \<open>The settings both components start from.\<close>

definition initialSettings_p :: settings_p where
  "initialSettings_p =
    \<lparr>ps_equity = 100000, ps_maxRiskPct = 1, ps_lotSize = 100,
     ps_defaultTimeframe = Mid, ps_defaultModel = Trend, ps_currency = ''CNY''\<rparr>"

definition initialSettings :: settings where
  "initialSettings =
    \<lparr>s_equity = 100000, s_maxRiskPct = 1, s_lotSize = 100,
     s_feePct = 3 / 100, s_exitFeePct = 10 / 100, s_slippage = 1 / 100\<rparr>"

section \<open>Portfolio aggregation\<close>

subsection \<open>Page.tsx: \<open>computeKPIs\<close>\<close>

record point =
  pt_i :: nat
  pt_equity :: number

record kpis =
  closedCount :: nat
  winRate :: number
  realizedPnl :: number
  avgWin :: number
  avgLoss :: number
  winLossRatio :: jsnum
  profitFactor :: jsnum
  avgR :: number
  equityCurve :: "point list"
  maxDrawdownPct :: number

text \<open>The variables that the \<open>forEach\<close> over the closed trades updates.\<close>

record walk =
  w_eq :: number
  w_peak :: number
  w_maxDD :: number
  w_curve :: "point list"

definition curveStep :: "trade_p \<Rightarrow> nat \<Rightarrow> walk \<Rightarrow> walk" where
  "curveStep t idx w =
    (let eq = w_eq w + or_default (p_pnl t) 0;
         peak = max (w_peak w) eq;
         dd = (if peak > 0 then (peak - eq) / peak else 0);
         maxDD = max (w_maxDD w) dd
     in \<lparr>w_eq = eq, w_peak = peak, w_maxDD = maxDD,
         w_curve = w_curve w @ [\<lparr>pt_i = idx + 1, pt_equity = eq\<rparr>]\<rparr>)"

fun curveWalk :: "trade_p list \<Rightarrow> nat \<Rightarrow> walk \<Rightarrow> walk" where
  "curveWalk [] idx w = w"
| "curveWalk (t # ts) idx w = curveWalk ts (Suc idx) (curveStep t idx w)"

definition isClosedValid :: "trade_p \<Rightarrow> bool" where
  "isClosedValid t = (p_status t = Closed \<and> p_exit t > 0 \<and> p_entry t > 0 \<and> p_sizeShares t > 0)"

definition sumPnl :: "trade_p list \<Rightarrow> number" where
  "sumPnl ts = foldl (\<lambda>s t. s + or_default (p_pnl t) 0) 0 ts"

text \<open>
  The first three constants of \<open>computeKPIs\<close>.  \<open>Array.prototype.sort\<close> is stable, and
  so is the insertion sort \<open>sort_key\<close>; the comparator orders by \<open>updatedAt || 0\<close>.
\<close>

definition closedSorted :: "trade_p list \<Rightarrow> trade_p list" where
  "closedSorted trades =
     sort_key (\<lambda>t. or_default (p_updatedAt t) 0) (filter isClosedValid trades)"

definition winsOf :: "trade_p list \<Rightarrow> trade_p list" where
  "winsOf cl = filter (\<lambda>t. p_pnl t > 0) cl"

definition lossesOf :: "trade_p list \<Rightarrow> trade_p list" where
  "lossesOf cl = filter (\<lambda>t. p_pnl t < 0) cl"

definition computeKPIs :: "trade_p list \<Rightarrow> number \<Rightarrow> kpis" where
  "computeKPIs trades startingEquity =
    (let closed = closedSorted trades;
         wins = winsOf closed;
         losses = lossesOf closed;
         rPnl = sumPnl closed;
         wr = (if length closed \<noteq> 0 then real (length wins) / real (length closed) else 0);
         aw = (if length wins \<noteq> 0 then sumPnl wins / real (length wins) else 0);
         al = (if length losses \<noteq> 0 then sumPnl losses / real (length losses) else 0);
         wlr = (if al = 0 then (if aw > 0 then Infinity else Fin 0) else Fin \<bar>aw / al\<bar>);
         grossWin = sumPnl wins;
         grossLossAbs = \<bar>sumPnl losses\<bar>;
         pf = (if grossLossAbs = 0 then (if grossWin > 0 then Infinity else Fin 0)
               else Fin (grossWin / grossLossAbs));
         ar = (if length closed \<noteq> 0
               then foldl (\<lambda>s t. s + or_default (p_rMultiple t) 0) 0 closed / real (length closed)
               else 0);
         eq0 = or_default startingEquity 0;
         w0 = \<lparr>w_eq = eq0, w_peak = eq0, w_maxDD = 0, w_curve = [\<lparr>pt_i = 0, pt_equity = eq0\<rparr>]\<rparr>;
         w = curveWalk closed 0 w0
     in \<lparr>closedCount = length closed, winRate = wr, realizedPnl = rPnl,
         avgWin = aw, avgLoss = al, winLossRatio = wlr, profitFactor = pf, avgR = ar,
         equityCurve = w_curve w, maxDrawdownPct = w_maxDD w\<rparr>)"

subsection \<open>Cost-aware console: \<open>kpi\<close>\<close>

text \<open>\<open>(x || 0)\<close> on an optional number.\<close>

definition opt_or0 :: "number option \<Rightarrow> number" where
  "opt_or0 x = (case x of None \<Rightarrow> 0 | Some v \<Rightarrow> or_default v 0)"

record kpi =
  k_closedCount :: nat
  k_winRate :: number
  k_profitFactor :: jsnum
  k_avgR :: number
  k_grossWin :: number
  k_grossLossAbs :: number

definition sumPnlOpt :: "trade list \<Rightarrow> number" where
  "sumPnlOpt ts = foldl (\<lambda>s t. s + opt_or0 (t_pnl t)) 0 ts"

definition kpi :: "trade list \<Rightarrow> kpi" where
  "kpi trades =
    (let closed = filter (\<lambda>t. t_status t = Closed \<and> t_pnl t \<noteq> None) trades;
         wins = filter (\<lambda>t. opt_or0 (t_pnl t) > 0) closed;
         losses = filter (\<lambda>t. opt_or0 (t_pnl t) < 0) closed;
         wr = (if length closed \<noteq> 0 then real (length wins) / real (length closed) else 0);
         grossWin = sumPnlOpt wins;
         grossLossAbs = \<bar>sumPnlOpt losses\<bar>;
         pf = (if grossLossAbs = 0 then (if grossWin > 0 then Infinity else Fin 0)
               else Fin (grossWin / grossLossAbs));
         ar = (if length closed \<noteq> 0
               then foldl (\<lambda>s t. s + opt_or0 (t_r t)) 0 closed / real (length closed)
               else 0)
     in \<lparr>k_closedCount = length closed, k_winRate = wr, k_profitFactor = pf, k_avgR = ar,
         k_grossWin = grossWin, k_grossLossAbs = grossLossAbs\<rparr>)"

section \<open>Auxiliary notions for the proofs\<close>

text \<open>The weight collected by a checklist, as a sum over the model's items.\<close>

definition got_of :: "ModelType \<Rightarrow> checklist \<Rightarrow> nat" where
  "got_of m c = sum_list (map (\<lambda>x. if checked c (key x) then weight x else 0) (itemSet m))"

text \<open>
  Sample data: a draft of Page.tsx filled in with a symbol, an entry, a stop and a size,
  and the trade it becomes when it is saved at time \<open>1\<close> and closed at \<open>now\<close>.
\<close>

definition sampleDraft_p :: "number \<Rightarrow> number \<Rightarrow> number \<Rightarrow> trade_p" where
  "sampleDraft_p entry stop sz =
    (makeBlankTrade initialSettings_p)
      \<lparr>p_symbol := ''600089'', p_entry := entry, p_stop := stop, p_sizeShares := sz\<rparr>"

definition sampleApp_p :: "number \<Rightarrow> number \<Rightarrow> number \<Rightarrow> app_p" where
  "sampleApp_p entry stop sz =
    \<lparr>ap_settings = initialSettings_p, ap_trades = [],
     ap_draft = sampleDraft_p entry stop sz, ap_activeTab = TabNew\<rparr>"

definition sampleClosed_p :: "number \<Rightarrow> number \<Rightarrow> number \<Rightarrow> number \<Rightarrow> number \<Rightarrow> trade_p" where
  "sampleClosed_p entry stop sz ep now =
    (case ap_trades (snd (addTrade_p (sampleApp_p entry stop sz) ''t'' 1)) of
       t # _ \<Rightarrow> closeOne_p t ep now
     | [] \<Rightarrow> sampleDraft_p entry stop sz)"

text \<open>The same for the cost-aware console, with a side.\<close>

definition sampleApp :: "Side \<Rightarrow> number \<Rightarrow> number \<Rightarrow> app" where
  "sampleApp side entry stop =
    \<lparr>a_settings = initialSettings, a_trades = [],
     a_draft = (resetDraft initialSettings)
        \<lparr>d_symbol := ''600089'', d_side := side, d_entry := entry, d_stop := stop\<rparr>,
     a_tab = TabNew\<rparr>"

text \<open>The trades of that console after the sample draft is saved and then closed.\<close>

definition sampleClosed :: "Side \<Rightarrow> number \<Rightarrow> number \<Rightarrow> number \<Rightarrow> number \<Rightarrow> trade list" where
  "sampleClosed side entry stop exit' now =
    map (\<lambda>t. closeOne t exit' now) (a_trades (snd (addTrade (sampleApp side entry stop) ''t'' 1)))"

section \<open>Scorer: proofs\<close>

lemma foldl_add_sum: "foldl (\<lambda>s x. s + f x) a xs = (a::nat) + sum_list (map f xs)"
  by (induction xs arbitrary: a) auto

lemma total_foldl: "foldl (\<lambda>s x. s + weight x) 0 (itemSet m) = 100"
  by (cases m) (simp_all add: itemSet_def TREND_def REBOUND_def)

lemma got_foldl:
  "foldl (\<lambda>s x. s + (if checked c (key x) then weight x else 0)) 0 (itemSet m) = got_of m c"
  by (simp add: foldl_add_sum got_of_def)

lemma total_sum: "sum_list (map weight (itemSet m)) = 100"
  using total_foldl [of m] by (simp add: foldl_add_sum)

lemma got_le: "got_of m c \<le> 100"
proof -
  have "got_of m c \<le> sum_list (map weight (itemSet m))"
    unfolding got_of_def by (auto intro: sum_list_mono)
  then show ?thesis by (simp only: total_sum)
qed

lemma round_nat: "Math_round (real n / 100 * 100) = int n"
  by (simp add: Math_round_def)

lemma score_got: "score m c = int (got_of m c)"
  unfolding score_def Let_def total_foldl got_foldl by (simp only: round_nat of_nat_numeral)

lemma scoreChecklist_got: "scoreChecklist m c = int (got_of m c)"
proof -
  have "scoreChecklist m c = clamp (int (got_of m c)) 0 100"
    unfolding scoreChecklist_def Let_def total_foldl got_foldl
    using round_nat [of "got_of m c"] by simp
  then show ?thesis using got_le [of m c] by (simp add: clamp_def)
qed

lemma checked_iff: "checked c x \<longleftrightarrow> c x = Some True"
  by (simp add: checked_def split: option.splits)

lemma got_cong:
  assumes "\<forall>x \<in> set (itemSet m). c (key x) = c' (key x)"
  shows "got_of m c = got_of m c'"
  unfolding got_of_def using assms
  by (intro arg_cong [where f = sum_list] map_cong) (auto simp: checked_def)

lemma got_all_false:
  assumes "\<forall>x \<in> set (itemSet m). c (key x) \<noteq> Some True"
  shows "got_of m c = 0"
  unfolding got_of_def using assms by (simp add: checked_iff)

lemma got_all_true:
  assumes "\<forall>x \<in> set (itemSet m). c (key x) = Some True"
  shows "got_of m c = 100"
proof -
  have "got_of m c = sum_list (map weight (itemSet m))"
    unfolding got_of_def using assms
    by (intro arg_cong [where f = sum_list] map_cong) (auto simp: checked_iff)
  then show ?thesis by (simp only: total_sum)
qed

lemma got_mono:
  assumes "\<And>x. checked c x \<Longrightarrow> checked c' x"
  shows "got_of m c \<le> got_of m c'"
  unfolding got_of_def using assms by (auto intro: sum_list_mono)

lemma got_flip_up: "got_of m c \<le> got_of m (c(k \<mapsto> True))"
  by (rule got_mono) (simp add: checked_def)

lemma got_flip_down: "got_of m (c(k \<mapsto> False)) \<le> got_of m c"
  by (rule got_mono) (simp add: checked_def split: if_splits)

text \<open>
  C6.  For either model and every checklist, both scoring functions return an integer
  between 0 and 100; a checklist in which no item of the model is true scores 0, one in
  which every item of the model is true scores 100, and two checklists that agree on the
  keys of the model score the same, whatever other keys they hold.
\<close>

theorem score_range_extremes:
  "0 \<le> score m c \<and> score m c \<le> 100
   \<and> 0 \<le> scoreChecklist m c \<and> scoreChecklist m c \<le> 100
   \<and> ((\<forall>x \<in> set (itemSet m). c0 (key x) \<noteq> Some True)
        \<longrightarrow> score m c0 = 0 \<and> scoreChecklist m c0 = 0)
   \<and> ((\<forall>x \<in> set (itemSet m). c1 (key x) = Some True)
        \<longrightarrow> score m c1 = 100 \<and> scoreChecklist m c1 = 100)
   \<and> ((\<forall>x \<in> set (itemSet m). c (key x) = c' (key x))
        \<longrightarrow> score m c = score m c' \<and> scoreChecklist m c = scoreChecklist m c')"
proof -
  have range: "0 \<le> int (got_of m c) \<and> int (got_of m c) \<le> 100"
    using got_le [of m c] by simp
  show ?thesis
    unfolding score_got scoreChecklist_got
    using range by (auto simp: got_all_false got_all_true dest: got_cong)
qed

theorem score_range_extremes_witness:
  "score Rebound (makeChecklist Rebound) = 0
   \<and> scoreChecklist Rebound (makeChecklist Rebound) = 0
   \<and> score Rebound (\<lambda>k. Some True) = 100
   \<and> scoreChecklist Rebound (\<lambda>k. Some True) = 100
   \<and> score Rebound [''support'' \<mapsto> True, ''maBull'' \<mapsto> True] = score Rebound [''support'' \<mapsto> True]
   \<and> scoreChecklist Rebound [''support'' \<mapsto> True, ''maBull'' \<mapsto> True]
       = scoreChecklist Rebound [''support'' \<mapsto> True]"
proof -
  have h0: "\<forall>x \<in> set (itemSet Rebound). (makeChecklist Rebound) (key x) \<noteq> Some True"
    by (simp add: itemSet_def REBOUND_def makeChecklist_def)
  have h1: "\<forall>x \<in> set (itemSet Rebound). (\<lambda>k. Some True) (key x) = Some True"
    by simp
  have h2: "\<forall>x \<in> set (itemSet Rebound).
      [''support'' \<mapsto> True, ''maBull'' \<mapsto> True] (key x) = [''support'' \<mapsto> True] (key x)"
    by (simp add: itemSet_def REBOUND_def)
  show ?thesis
    using h0 h1 h2
      score_range_extremes [of Rebound "[''support'' \<mapsto> True, ''maBull'' \<mapsto> True]"
        "makeChecklist Rebound" "\<lambda>k. Some True" "[''support'' \<mapsto> True]"]
    by blast
qed

text \<open>
  C10.  Setting any key of a checklist to true never lowers the score, and setting any key
  to false never raises it; this holds for both scoring functions and for every key, so in
  particular for the keys of the model.
\<close>

theorem score_monotone:
  "score m c \<le> score m (c(k \<mapsto> True))
   \<and> score m (c(k \<mapsto> False)) \<le> score m c
   \<and> scoreChecklist m c \<le> scoreChecklist m (c(k \<mapsto> True))
   \<and> scoreChecklist m (c(k \<mapsto> False)) \<le> scoreChecklist m c"
  unfolding score_got scoreChecklist_got
  using got_flip_up [of m c k] got_flip_down [of m c k] by simp

theorem score_monotone_witness:
  "score Trend (makeChecklist Trend) \<le> score Trend ((makeChecklist Trend)(''maBull'' \<mapsto> True))
   \<and> score Trend ((makeChecklist Trend)(''maBull'' \<mapsto> True)) = 20
   \<and> score Trend (makeChecklist Trend) = 0"
proof -
  have "score Trend ((makeChecklist Trend)(''maBull'' \<mapsto> True)) = 20"
    by (simp add: score_def itemSet_def TREND_def makeChecklist_def checked_def Math_round_def)
  moreover have "score Trend (makeChecklist Trend) = 0"
    by (simp add: score_def itemSet_def TREND_def makeChecklist_def checked_def Math_round_def)
  ultimately show ?thesis
    using score_monotone [of Trend "makeChecklist Trend" "''maBull''"] by simp
qed

section \<open>Position sizing: proofs\<close>






text \<open>
  C9.  The worked example: long, entry 10, stop 9, equity 100000, one percent of risk, lots
  of 100 and no costs give a risk per unit of 1, a budget of 1000, 1000 units and a
  position of 10 percent.
\<close>

theorem sizing_worked_example:
  "calcSizing 100000 1 10 9 100 Long 0 0 0
     = \<lparr>riskPer = 1, riskMoney = 1000, size_units = 1000, posPct = 10\<rparr>"
  by (simp add: calcSizing_def Let_def or_default_def priceRisk_def costRisk_def Math_floor_def)




section \<open>Portfolio aggregation: proofs\<close>

lemma or_default_zero: "or_default x 0 = x"
  by (simp add: or_default_def)











lemma computeKPIs_fields:
  "closedCount (computeKPIs trades e) = length (closedSorted trades)"
  "winRate (computeKPIs trades e) =
     (if length (closedSorted trades) \<noteq> 0
      then real (length (winsOf (closedSorted trades))) / real (length (closedSorted trades))
      else 0)"
  "avgWin (computeKPIs trades e) =
     (if length (winsOf (closedSorted trades)) \<noteq> 0
      then sumPnl (winsOf (closedSorted trades)) / real (length (winsOf (closedSorted trades)))
      else 0)"
  "avgLoss (computeKPIs trades e) =
     (if length (lossesOf (closedSorted trades)) \<noteq> 0
      then sumPnl (lossesOf (closedSorted trades))
             / real (length (lossesOf (closedSorted trades)))
      else 0)"
  "winLossRatio (computeKPIs trades e) =
     (if avgLoss (computeKPIs trades e) = 0
      then (if avgWin (computeKPIs trades e) > 0 then Infinity else Fin 0)
      else Fin \<bar>avgWin (computeKPIs trades e) / avgLoss (computeKPIs trades e)\<bar>)"
  "profitFactor (computeKPIs trades e) =
     (if \<bar>sumPnl (lossesOf (closedSorted trades))\<bar> = 0
      then (if sumPnl (winsOf (closedSorted trades)) > 0 then Infinity else Fin 0)
      else Fin (sumPnl (winsOf (closedSorted trades))
                  / \<bar>sumPnl (lossesOf (closedSorted trades))\<bar>))"
  "avgR (computeKPIs trades e) =
     (if length (closedSorted trades) \<noteq> 0
      then foldl (\<lambda>s t. s + or_default (p_rMultiple t) 0) 0 (closedSorted trades)
             / real (length (closedSorted trades))
      else 0)"
  "equityCurve (computeKPIs trades e) =
     w_curve (curveWalk (closedSorted trades) 0
       \<lparr>w_eq = e, w_peak = e, w_maxDD = 0, w_curve = [\<lparr>pt_i = 0, pt_equity = e\<rparr>]\<rparr>)"
  "maxDrawdownPct (computeKPIs trades e) =
     w_maxDD (curveWalk (closedSorted trades) 0
       \<lparr>w_eq = e, w_peak = e, w_maxDD = 0, w_curve = [\<lparr>pt_i = 0, pt_equity = e\<rparr>]\<rparr>)"
  by (simp_all add: computeKPIs_def Let_def or_default_zero)

lemmas sample_p_defs = sampleClosed_p_def sampleApp_p_def sampleDraft_p_def addTrade_p_def
  makeBlankTrade_def initialSettings_p_def normalizeTrade_def closeOne_p_def calcPnL_p_def
  calcRMultiple_def trim_def isSpace_def or_default_def Let_def

lemma sampleClosed_p_fields:
  assumes "0 < stop" and "t = sampleClosed_p entry stop sz ep now"
  shows "p_status t = Closed" and "p_entry t = entry" and "p_exit t = ep"
    and "p_sizeShares t = sz" and "p_updatedAt t = now"
    and "p_pnl t = (if entry = 0 \<or> ep = 0 \<or> sz = 0 then 0 else (ep - entry) * sz)"
  using assms by (simp_all add: sample_p_defs)

lemmas sample_p_eval = sampleClosed_p_fields [OF _ refl] closedSorted_def isClosedValid_def
  winsOf_def lossesOf_def sumPnl_def curveStep_def or_default_zero




lemma foldl_plus_sum: "foldl (\<lambda>s t. s + f t) a ts = (a::real) + sum_list (map f ts)"
  by (induction ts arbitrary: a) auto

lemma sumPnl_wins_nonneg: "0 \<le> sumPnl (winsOf cl)"
proof -
  have "sumPnl (winsOf cl) = sum_list (map p_pnl (winsOf cl))"
    by (simp add: sumPnl_def foldl_plus_sum or_default_zero)
  moreover have "0 \<le> sum_list (map p_pnl (winsOf cl))"
    by (rule sum_list_nonneg) (auto simp: winsOf_def)
  ultimately show ?thesis by simp
qed

lemma avgWin_nonneg: "0 \<le> avgWin (computeKPIs trades e)"
  using sumPnl_wins_nonneg [of "closedSorted trades"] by (simp add: computeKPIs_fields)

lemma kpi_fields:
  "k_closedCount (kpi ts) = length (filter (\<lambda>t. t_status t = Closed \<and> t_pnl t \<noteq> None) ts)"
  "k_grossWin (kpi ts) =
     sumPnlOpt (filter (\<lambda>t. opt_or0 (t_pnl t) > 0)
       (filter (\<lambda>t. t_status t = Closed \<and> t_pnl t \<noteq> None) ts))"
  "k_grossLossAbs (kpi ts) =
     \<bar>sumPnlOpt (filter (\<lambda>t. opt_or0 (t_pnl t) < 0)
       (filter (\<lambda>t. t_status t = Closed \<and> t_pnl t \<noteq> None) ts))\<bar>"
  "k_profitFactor (kpi ts) =
     (if k_grossLossAbs (kpi ts) = 0
      then (if k_grossWin (kpi ts) > 0 then Infinity else Fin 0)
      else Fin (k_grossWin (kpi ts) / k_grossLossAbs (kpi ts)))"
  by (simp_all add: kpi_def Let_def)

lemma kpi_grossWin_nonneg: "0 \<le> k_grossWin (kpi ts)"
proof -
  let ?w = "filter (\<lambda>t. opt_or0 (t_pnl t) > 0)
       (filter (\<lambda>t. t_status t = Closed \<and> t_pnl t \<noteq> None) ts)"
  have "k_grossWin (kpi ts) = sum_list (map (\<lambda>t. opt_or0 (t_pnl t)) ?w)"
    by (simp add: kpi_fields sumPnlOpt_def foldl_plus_sum)
  moreover have "0 \<le> sum_list (map (\<lambda>t. opt_or0 (t_pnl t)) ?w)"
    by (rule sum_list_nonneg) auto
  ultimately show ?thesis by simp
qed

text \<open>
  C7.  In \<open>computeKPIs\<close> the win/loss ratio is \<open>Infinity\<close> exactly when the average loss
  is zero and the average win is positive, it is 0 when both are zero, and it is
  \<open>|avgWin / avgLoss|\<close> when the average loss is not zero; the average win is never
  negative, so these cases are all there are, and a division is made only by a non-zero
  number.  The profit factor behaves the same way on the gross win and the magnitude of
  the gross loss, in \<open>computeKPIs\<close> and in \<open>kpi\<close> of the cost-aware console.
\<close>

theorem ratio_fallbacks:
  fixes trades :: "trade_p list" and e :: number and ts :: "trade list"
  defines "k \<equiv> computeKPIs trades e"
    and "gw \<equiv> sumPnl (winsOf (closedSorted trades))"
    and "gl \<equiv> \<bar>sumPnl (lossesOf (closedSorted trades))\<bar>"
    and "c \<equiv> kpi ts"
  shows "0 \<le> avgWin k \<and> 0 \<le> gw \<and> 0 \<le> k_grossWin c
    \<and> (winLossRatio k = Infinity \<longleftrightarrow> avgLoss k = 0 \<and> 0 < avgWin k)
    \<and> (avgLoss k = 0 \<and> avgWin k = 0 \<longrightarrow> winLossRatio k = Fin 0)
    \<and> (avgLoss k \<noteq> 0 \<longrightarrow> winLossRatio k = Fin \<bar>avgWin k / avgLoss k\<bar>)
    \<and> (profitFactor k = Infinity \<longleftrightarrow> gl = 0 \<and> 0 < gw)
    \<and> (gl = 0 \<and> gw = 0 \<longrightarrow> profitFactor k = Fin 0)
    \<and> (gl \<noteq> 0 \<longrightarrow> profitFactor k = Fin (gw / gl))
    \<and> (k_profitFactor c = Infinity \<longleftrightarrow> k_grossLossAbs c = 0 \<and> 0 < k_grossWin c)
    \<and> (k_grossLossAbs c = 0 \<and> k_grossWin c = 0 \<longrightarrow> k_profitFactor c = Fin 0)
    \<and> (k_grossLossAbs c \<noteq> 0 \<longrightarrow>
          k_profitFactor c = Fin (k_grossWin c / k_grossLossAbs c))"
proof -
  have a: "0 \<le> avgWin k" unfolding k_def by (rule avgWin_nonneg)
  have b: "0 \<le> gw" unfolding gw_def by (rule sumPnl_wins_nonneg)
  have d: "0 \<le> k_grossWin c" unfolding c_def by (rule kpi_grossWin_nonneg)
  have w: "winLossRatio k =
     (if avgLoss k = 0 then (if avgWin k > 0 then Infinity else Fin 0)
      else Fin \<bar>avgWin k / avgLoss k\<bar>)"
    unfolding k_def by (rule computeKPIs_fields(5))
  have p: "profitFactor k =
     (if gl = 0 then (if gw > 0 then Infinity else Fin 0) else Fin (gw / gl))"
    unfolding k_def gw_def gl_def by (rule computeKPIs_fields(6))
  have q: "k_profitFactor c =
     (if k_grossLossAbs c = 0 then (if k_grossWin c > 0 then Infinity else Fin 0)
      else Fin (k_grossWin c / k_grossLossAbs c))"
    unfolding c_def by (rule kpi_fields(4))
  have w': "(winLossRatio k = Infinity \<longleftrightarrow> avgLoss k = 0 \<and> 0 < avgWin k)
    \<and> (avgLoss k = 0 \<and> avgWin k = 0 \<longrightarrow> winLossRatio k = Fin 0)
    \<and> (avgLoss k \<noteq> 0 \<longrightarrow> winLossRatio k = Fin \<bar>avgWin k / avgLoss k\<bar>)"
    by (simp add: w)
  have p': "(profitFactor k = Infinity \<longleftrightarrow> gl = 0 \<and> 0 < gw)
    \<and> (gl = 0 \<and> gw = 0 \<longrightarrow> profitFactor k = Fin 0)
    \<and> (gl \<noteq> 0 \<longrightarrow> profitFactor k = Fin (gw / gl))"
    by (simp add: p)
  have q': "(k_profitFactor c = Infinity \<longleftrightarrow> k_grossLossAbs c = 0 \<and> 0 < k_grossWin c)
    \<and> (k_grossLossAbs c = 0 \<and> k_grossWin c = 0 \<longrightarrow> k_profitFactor c = Fin 0)
    \<and> (k_grossLossAbs c \<noteq> 0 \<longrightarrow>
          k_profitFactor c = Fin (k_grossWin c / k_grossLossAbs c))"
    by (simp add: q)
  show ?thesis using a b d w' p' q' by blast
qed

lemmas sample_defs = sampleClosed_def sampleApp_def addTrade_def resetDraft_def
  initialSettings_def closeOne_def calcPnL_def calcCosts_def calcR_def calcSizing_def
  priceRisk_def costRisk_def Math_floor_def trim_def isSpace_def or_default_def Let_def


lemma sampleClosed_kpi:
  "k_grossWin (kpi (sampleClosed Long 10 9 12 2)) = 176526 / 100"
  "k_grossLossAbs (kpi (sampleClosed Long 10 9 12 2)) = 0"
  "k_grossWin (kpi (sampleClosed Long 10 9 12 2 @ sampleClosed Long 10 9 9 3)) = 176526 / 100"
  "k_grossLossAbs (kpi (sampleClosed Long 10 9 12 2 @ sampleClosed Long 10 9 9 3)) = 93123 / 100"
  "k_grossWin (kpi []) = 0"
  "k_grossLossAbs (kpi []) = 0"
  by (simp_all add: kpi_fields sumPnlOpt_def opt_or0_def sample_defs del: not_None_eq)

lemma sample_p_kpis:
  "avgWin (computeKPIs [sampleClosed_p 10 9 1000 12 2] 100000) = 2000"
  "avgLoss (computeKPIs [sampleClosed_p 10 9 1000 12 2] 100000) = 0"
  "sumPnl (winsOf (closedSorted [sampleClosed_p 10 9 1000 12 2])) = 2000"
  "sumPnl (lossesOf (closedSorted [sampleClosed_p 10 9 1000 12 2])) = 0"
  "avgWin (computeKPIs [sampleClosed_p 10 9 1000 12 2, sampleClosed_p 10 9 1000 9 3] 100000) = 2000"
  "avgLoss (computeKPIs [sampleClosed_p 10 9 1000 12 2, sampleClosed_p 10 9 1000 9 3] 100000)
     = - 1000"
  "sumPnl (winsOf (closedSorted [sampleClosed_p 10 9 1000 12 2, sampleClosed_p 10 9 1000 9 3]))
     = 2000"
  "sumPnl (lossesOf (closedSorted [sampleClosed_p 10 9 1000 12 2, sampleClosed_p 10 9 1000 9 3]))
     = - 1000"
  "avgWin (computeKPIs [] 100000) = 0"
  "avgLoss (computeKPIs [] 100000) = 0"
  "sumPnl (winsOf (closedSorted [])) = 0"
  "sumPnl (lossesOf (closedSorted [])) = 0"
  by (simp_all add: computeKPIs_fields sample_p_eval)

theorem ratio_fallbacks_witness:
  "winLossRatio (computeKPIs [sampleClosed_p 10 9 1000 12 2] 100000) = Infinity
   \<and> profitFactor (computeKPIs [sampleClosed_p 10 9 1000 12 2] 100000) = Infinity
   \<and> k_profitFactor (kpi (sampleClosed Long 10 9 12 2)) = Infinity
   \<and> winLossRatio (computeKPIs [] 100000) = Fin 0
   \<and> profitFactor (computeKPIs [] 100000) = Fin 0
   \<and> k_profitFactor (kpi []) = Fin 0
   \<and> winLossRatio
        (computeKPIs [sampleClosed_p 10 9 1000 12 2, sampleClosed_p 10 9 1000 9 3] 100000) = Fin 2
   \<and> profitFactor
        (computeKPIs [sampleClosed_p 10 9 1000 12 2, sampleClosed_p 10 9 1000 9 3] 100000) = Fin 2
   \<and> k_profitFactor (kpi (sampleClosed Long 10 9 12 2 @ sampleClosed Long 10 9 9 3))
        = Fin (176526 / 93123)"
  using
    ratio_fallbacks [of "[sampleClosed_p 10 9 1000 12 2]" 100000 "sampleClosed Long 10 9 12 2"]
    ratio_fallbacks [of "[]" 100000 "[]"]
    ratio_fallbacks [of "[sampleClosed_p 10 9 1000 12 2, sampleClosed_p 10 9 1000 9 3]" 100000
      "sampleClosed Long 10 9 12 2 @ sampleClosed Long 10 9 9 3"]
  by (simp add: sample_p_kpis sampleClosed_kpi)

text \<open>
  C8.  When no trade of the collection is closed, \<open>computeKPIs\<close> returns a closed count,
  a win rate, a profit factor and an average R of zero, and an equity curve of one point,
  at index 0, whose equity is the starting equity.
\<close>

theorem no_closed_trades:
  assumes "\<forall>t \<in> set trades. p_status t \<noteq> Closed"
  shows "closedCount (computeKPIs trades e) = 0
    \<and> winRate (computeKPIs trades e) = 0
    \<and> profitFactor (computeKPIs trades e) = Fin 0
    \<and> avgR (computeKPIs trades e) = 0
    \<and> equityCurve (computeKPIs trades e) = [\<lparr>pt_i = 0, pt_equity = e\<rparr>]"
proof -
  have "filter isClosedValid trades = []"
    using assms by (simp add: isClosedValid_def filter_empty_conv)
  then have "closedSorted trades = []"
    by (simp add: closedSorted_def)
  then show ?thesis
    by (simp add: computeKPIs_fields winsOf_def lossesOf_def sumPnl_def)
qed

theorem no_closed_trades_witness:
  "map p_status (ap_trades (snd (addTrade_p (sampleApp_p 10 9 1000) ''t'' 1))) = [Open]
   \<and> closedCount (computeKPIs (ap_trades (snd (addTrade_p (sampleApp_p 10 9 1000) ''t'' 1))) 100000) = 0
   \<and> winRate (computeKPIs (ap_trades (snd (addTrade_p (sampleApp_p 10 9 1000) ''t'' 1))) 100000) = 0
   \<and> profitFactor (computeKPIs (ap_trades (snd (addTrade_p (sampleApp_p 10 9 1000) ''t'' 1))) 100000)
       = Fin 0
   \<and> avgR (computeKPIs (ap_trades (snd (addTrade_p (sampleApp_p 10 9 1000) ''t'' 1))) 100000) = 0
   \<and> equityCurve (computeKPIs (ap_trades (snd (addTrade_p (sampleApp_p 10 9 1000) ''t'' 1))) 100000)
       = [\<lparr>pt_i = 0, pt_equity = 100000\<rparr>]"
proof -
  have s: "map p_status (ap_trades (snd (addTrade_p (sampleApp_p 10 9 1000) ''t'' 1))) = [Open]"
    by (simp add: sample_p_defs)
  then have "\<forall>t \<in> set (ap_trades (snd (addTrade_p (sampleApp_p 10 9 1000) ''t'' 1))).
      p_status t \<noteq> Closed"
    by (auto simp: map_eq_Cons_conv)
  from no_closed_trades [OF this, of 100000] s show ?thesis by simp
qed

section \<open>Outcome calculator: proofs\<close>

text \<open>
  C5, as stated, fails for the R multiple: \<open>calcR\<close> returns 0 when the stop is not below
  the entry of a long trade, while the long-only \<open>calcRMultiple\<close> divides by the distance
  \<open>|entry - stop|\<close>.  With entry 10, stop 11 and exit 12 the first gives 0 and the second,
  like the formula, gives 2.
\<close>

theorem r_multiple_stop_above_entry_counterexample:
  "calcR 10 11 12 Long 0 0 0 = 0
   \<and> calcRMultiple (sampleClosed_p 10 11 100 12 2) = 2
   \<and> calcR 10 11 12 Long 0 0 0 \<noteq> (12 - 10) / \<bar>10 - 11\<bar>"
  by (simp add: calcR_def sample_p_defs)

text \<open>
  C5, amended.  With the side long and no costs, \<open>calcPnL\<close> of the cost-aware console
  agrees with the long-only \<open>calcPnL\<close> of Page.tsx on every trade: both are
  \<open>(exit - entry) * units\<close>, and 0 when entry, exit or units is zero.  \<open>calcR\<close> agrees
  with \<open>calcRMultiple\<close> when the stop is below the entry and stop and units are not zero;
  it equals \<open>(exit - entry) / |entry - stop|\<close> when the stop is below the entry and entry
  and exit are not zero; and it is 0 when the stop is at or above the entry.
\<close>

theorem long_zero_cost_agrees:
  "calcPnL (p_entry t) (p_exit t) (p_sizeShares t) Long 0 0 0 = calcPnL_p t
   \<and> calcPnL entry exit' units Long 0 0 0
        = (if entry = 0 \<or> exit' = 0 \<or> units = 0 then 0 else (exit' - entry) * units)
   \<and> (p_stop t < p_entry t \<and> p_stop t \<noteq> 0 \<and> p_sizeShares t \<noteq> 0 \<longrightarrow>
        calcR (p_entry t) (p_stop t) (p_exit t) Long 0 0 0 = calcRMultiple t)
   \<and> (stop < entry \<and> entry \<noteq> 0 \<and> exit' \<noteq> 0 \<longrightarrow>
        calcR entry stop exit' Long 0 0 0 = (exit' - entry) / \<bar>entry - stop\<bar>)
   \<and> (entry \<le> stop \<longrightarrow> calcR entry stop exit' Long 0 0 0 = 0)"
  by (simp add: calcPnL_def calcCosts_def calcPnL_p_def calcR_def calcRMultiple_def Let_def)

theorem long_zero_cost_agrees_witness:
  "calcPnL 10 12 100 Long 0 0 0 = calcPnL_p (sampleClosed_p 10 9 100 12 2)
   \<and> calcPnL 10 12 100 Long 0 0 0 = 200
   \<and> calcR 10 9 12 Long 0 0 0 = calcRMultiple (sampleClosed_p 10 9 100 12 2)
   \<and> calcR 10 9 12 Long 0 0 0 = 2
   \<and> calcR 10 11 12 Long 0 0 0 = 0"
proof -
  have f: "p_entry (sampleClosed_p 10 9 100 12 2) = 10"
    "p_stop (sampleClosed_p 10 9 100 12 2) = 9"
    "p_exit (sampleClosed_p 10 9 100 12 2) = 12"
    "p_sizeShares (sampleClosed_p 10 9 100 12 2) = 100"
    by (simp_all add: sample_p_defs)
  show ?thesis
    using long_zero_cost_agrees [of "sampleClosed_p 10 9 100 12 2" 10 12 100 9]
      long_zero_cost_agrees [of "sampleClosed_p 10 9 100 12 2" 10 12 100 11]
    by (simp add: f)
qed

section \<open>Creating a trade: proofs\<close>

text \<open>
  C4, as stated, fails in Page.tsx, whose trades have no side and are long: its
  \<open>addTrade\<close> checks the symbol and the sign of the stop only, so a draft with entry 10
  and stop 11 is saved.
\<close>

theorem stop_above_entry_accepted_counterexample:
  "ap_trades (sampleApp_p 10 11 100) = []
   \<and> fst (addTrade_p (sampleApp_p 10 11 100) ''t'' 1) = None
   \<and> map (\<lambda>t. (p_entry t, p_stop t)) (ap_trades (snd (addTrade_p (sampleApp_p 10 11 100) ''t'' 1)))
       = [(10, 11)]"
  by (simp add: sample_p_defs)

text \<open>
  C4, amended.  In the cost-aware console, a draft whose stop is at or above the entry
  when long, at or below the entry when short, or missing or not positive, is rejected:
  \<open>addTrade\<close> raises an alert and the whole state, the trade collection included, is
  what it was.  In Page.tsx, \<open>addTrade\<close> rejects in this way a draft whose stop is missing
  or not positive.
\<close>

theorem invalid_stop_rejected:
  "((d_side (a_draft a) = Long \<and> d_entry (a_draft a) \<le> d_stop (a_draft a))
      \<or> (d_side (a_draft a) = Short \<and> d_stop (a_draft a) \<le> d_entry (a_draft a))
      \<or> d_stop (a_draft a) \<le> 0
     \<longrightarrow> (\<exists>al. fst (addTrade a newId now) = Some al) \<and> snd (addTrade a newId now) = a)
   \<and> (p_stop (ap_draft b) \<le> 0
     \<longrightarrow> (\<exists>al. fst (addTrade_p b newId now) = Some al) \<and> snd (addTrade_p b newId now) = b)"
  by (simp add: addTrade_def addTrade_p_def Let_def)

theorem invalid_stop_rejected_witness:
  "addTrade (sampleApp Long 10 11) ''t'' 1 = (Some LongStopNotBelowEntry, sampleApp Long 10 11)
   \<and> addTrade (sampleApp Short 10 9) ''t'' 1 = (Some ShortStopNotAboveEntry, sampleApp Short 10 9)
   \<and> addTrade (sampleApp Long 10 0) ''t'' 1 = (Some StopRequired, sampleApp Long 10 0)
   \<and> addTrade_p (sampleApp_p 10 0 100) ''t'' 1 = (Some StopRequired, sampleApp_p 10 0 100)
   \<and> snd (addTrade (sampleApp Long 10 11) ''t'' 1) = sampleApp Long 10 11
   \<and> snd (addTrade (sampleApp Short 10 9) ''t'' 1) = sampleApp Short 10 9
   \<and> snd (addTrade (sampleApp Long 10 0) ''t'' 1) = sampleApp Long 10 0
   \<and> snd (addTrade_p (sampleApp_p 10 0 100) ''t'' 1) = sampleApp_p 10 0 100"
proof -
  have d: "d_side (a_draft (sampleApp Long 10 11)) = Long"
    "d_entry (a_draft (sampleApp Long 10 11)) = 10" "d_stop (a_draft (sampleApp Long 10 11)) = 11"
    "d_side (a_draft (sampleApp Short 10 9)) = Short"
    "d_entry (a_draft (sampleApp Short 10 9)) = 10" "d_stop (a_draft (sampleApp Short 10 9)) = 9"
    "d_stop (a_draft (sampleApp Long 10 0)) = 0"
    "p_stop (ap_draft (sampleApp_p 10 0 100)) = 0"
    by (simp_all add: sampleApp_def sampleApp_p_def sampleDraft_p_def)
  have e: "fst (addTrade (sampleApp Long 10 11) ''t'' 1) = Some LongStopNotBelowEntry"
    "fst (addTrade (sampleApp Short 10 9) ''t'' 1) = Some ShortStopNotAboveEntry"
    "fst (addTrade (sampleApp Long 10 0) ''t'' 1) = Some StopRequired"
    "fst (addTrade_p (sampleApp_p 10 0 100) ''t'' 1) = Some StopRequired"
    by (simp_all add: sample_defs sample_p_defs)
  have s: "snd (addTrade (sampleApp Long 10 11) ''t'' 1) = sampleApp Long 10 11"
    "snd (addTrade (sampleApp Short 10 9) ''t'' 1) = sampleApp Short 10 9"
    "snd (addTrade (sampleApp Long 10 0) ''t'' 1) = sampleApp Long 10 0"
    "snd (addTrade_p (sampleApp_p 10 0 100) ''t'' 1) = sampleApp_p 10 0 100"
    using invalid_stop_rejected [of "sampleApp Long 10 11" "''t''" 1 "sampleApp_p 10 0 100"]
      invalid_stop_rejected [of "sampleApp Short 10 9" "''t''" 1 "sampleApp_p 10 0 100"]
      invalid_stop_rejected [of "sampleApp Long 10 0" "''t''" 1 "sampleApp_p 10 0 100"]
    by (simp_all add: d)
  show ?thesis using e s by (simp add: prod_eq_iff)
qed

end
